theory Spec2Isabelle
  imports Complex_Main
begin

section \<open>Python values, exceptions and the string library\<close>

text \<open>
  The scoring service (\<^verbatim>\<open>scoring_service.py\<close>, written out by notebook 04) and the
  training notebook 03 are Python. Text is a \<^typ>\<open>string\<close>; a \<^typ>\<open>char\<close> stands for
  the code point of the same number, so the model covers Python strings whose code points
  are below 256. Integers are unbounded (\<^typ>\<open>int\<close>). Every exception the code can meet
  is a subclass of \<^verbatim>\<open>Exception\<close> and is a value of \<open>error\<close>; a call that may raise
  returns \<open>error + 'a\<close>, with \<open>Inl\<close> for the exception.
\<close>

datatype error =
    ValueError
  | TypeError
  | AttributeError
  | NameError
  | OtherException string

text \<open>
  \<^verbatim>\<open>str.isspace\<close> on one character, as \<^verbatim>\<open>str.split()\<close> uses it: tab, line feed,
  vertical tab, form feed, carriage return, the four separators 0x1C to 0x1F, space,
  next line (0x85) and no-break space (0xA0).
\<close>

definition isspace :: "char \<Rightarrow> bool" where
  "isspace c = (of_char c \<in> {9, 10, 11, 12, 13, 28, 29, 30, 31, 32, 133, 160 :: nat})"

text \<open>
  \<^verbatim>\<open>s.split()\<close> without a separator: runs of whitespace separate the words and no
  empty word is produced. \<open>w\<close> is the word read so far.
\<close>

fun split_from :: "string \<Rightarrow> string \<Rightarrow> string list" where
  "split_from [] w = (if w = [] then [] else [w])"
| "split_from (c # cs) w =
     (if isspace c then (if w = [] then split_from cs [] else w # split_from cs [])
      else split_from cs (w @ [c]))"

definition str_split :: "string \<Rightarrow> string list" where
  "str_split s = split_from s []"

text \<open>
  \<^verbatim>\<open>str.lower\<close>: below code point 256 the upper-case letters are A to Z and 0xC0 to 0xDE
  without the multiplication sign 0xD7, and each has its lower-case letter 32 places up.
\<close>

definition lower_char :: "char \<Rightarrow> char" where
  "lower_char c =
     (let n = of_char c :: nat in
      if (65 \<le> n \<and> n \<le> 90) \<or> (192 \<le> n \<and> n \<le> 222 \<and> n \<noteq> 215)
      then char_of (n + 32) else c)"

definition str_lower :: "string \<Rightarrow> string" where
  "str_lower s = map lower_char s"

text \<open>
  \<^verbatim>\<open>string.punctuation\<close>: the 32 ASCII punctuation characters, from \<^verbatim>\<open>!\<close> (0x21) to
  \<^verbatim>\<open>/\<close>, \<^verbatim>\<open>:\<close> to \<^verbatim>\<open>@\<close>, \<^verbatim>\<open>[\<close> to the backquote (0x60), and \<^verbatim>\<open>{\<close> to \<^verbatim>\<open>~\<close> (0x7E).
\<close>

definition punctuation :: string where
  "punctuation =
     [CHR 0x21, CHR 0x22, CHR 0x23, CHR 0x24, CHR 0x25, CHR 0x26, CHR 0x27, CHR 0x28,
      CHR 0x29, CHR 0x2A, CHR 0x2B, CHR 0x2C, CHR 0x2D, CHR 0x2E, CHR 0x2F, CHR 0x3A,
      CHR 0x3B, CHR 0x3C, CHR 0x3D, CHR 0x3E, CHR 0x3F, CHR 0x40, CHR 0x5B, CHR 0x5C,
      CHR 0x5D, CHR 0x5E, CHR 0x5F, CHR 0x60, CHR 0x7B, CHR 0x7C, CHR 0x7D, CHR 0x7E]"

text \<open>
  \<^verbatim>\<open>list.index(v)\<close>: the position of the first element equal to \<open>v\<close>;
  \<^verbatim>\<open>ValueError\<close> when there is none.
\<close>

fun list_index :: "'a list \<Rightarrow> 'a \<Rightarrow> error + nat" where
  "list_index [] v = Inl ValueError"
| "list_index (x # xs) v =
     (if x = v then Inr 0
      else (case list_index xs v of Inl e \<Rightarrow> Inl e | Inr i \<Rightarrow> Inr (Suc i)))"

text \<open>
  An element of a corpus: a string, or an object that has no \<^verbatim>\<open>split\<close> method (a number,
  \<^verbatim>\<open>None\<close>, a nested array).
\<close>

datatype pyobj = Str string | NonStr


section \<open>The serving-time encoder (notebook 04, \<^verbatim>\<open>scoring_service.py\<close>)\<close>

text \<open>
  \<^verbatim>\<open>remove_special_characters\<close>: the pattern is a character class of the escaped
  punctuation characters, and \<^verbatim>\<open>pattern.sub('', token)\<close> deletes every match.
\<close>

definition remove_special_characters :: "string \<Rightarrow> string" where
  "remove_special_characters token = filter (\<lambda>c. c \<notin> set punctuation) token"

text \<open>
  The loop over \<^verbatim>\<open>resolved_words\<close>: each word is looked up with \<^verbatim>\<open>dictonary.index\<close>, and
  \<^verbatim>\<open>except ValueError\<close> appends \<^verbatim>\<open>unk_word_index\<close>. Any other exception would leave the
  loop.
\<close>

fun resolved_words_loop ::
  "string list \<Rightarrow> int \<Rightarrow> string list \<Rightarrow> int list \<Rightarrow> error + int list" where
  "resolved_words_loop dictonary unk_word_index [] sequence = Inr sequence"
| "resolved_words_loop dictonary unk_word_index (resolved_word # rest) sequence =
     (case list_index dictonary resolved_word of
        Inr word_index \<Rightarrow>
          resolved_words_loop dictonary unk_word_index rest (sequence @ [int word_index])
      | Inl ValueError \<Rightarrow>
          resolved_words_loop dictonary unk_word_index rest (sequence @ [unk_word_index])
      | Inl e \<Rightarrow> Inl e)"

text \<open>
  The loop \<^verbatim>\<open>for word in tokens\<close>. The word is lowercased first; a key of \<^verbatim>\<open>c_map\<close> is
  replaced by the words of its expansion; any other word is cleaned, and an empty clean
  word appends nothing.
\<close>

fun tokens_loop ::
  "string list \<Rightarrow> (string \<rightharpoonup> string) \<Rightarrow> int \<Rightarrow> string list \<Rightarrow> int list \<Rightarrow> error + int list"
  where
  "tokens_loop dictonary c_map unk_word_index [] sequence = Inr sequence"
| "tokens_loop dictonary c_map unk_word_index (token # rest) sequence =
     (let word = str_lower token in
      case c_map word of
        Some expanded \<Rightarrow>
          (case resolved_words_loop dictonary unk_word_index (str_split expanded) sequence of
             Inl e \<Rightarrow> Inl e
           | Inr sequence' \<Rightarrow> tokens_loop dictonary c_map unk_word_index rest sequence')
      | None \<Rightarrow>
          (let clean_word = remove_special_characters word in
           if length clean_word > 0 then
             (case list_index dictonary clean_word of
                Inr word_index \<Rightarrow>
                  tokens_loop dictonary c_map unk_word_index rest (sequence @ [int word_index])
              | Inl ValueError \<Rightarrow>
                  tokens_loop dictonary c_map unk_word_index rest (sequence @ [unk_word_index])
              | Inl e \<Rightarrow> Inl e)
           else tokens_loop dictonary c_map unk_word_index rest sequence))"

text \<open>
  The loop \<^verbatim>\<open>for i in range(len(corpus))\<close>: \<^verbatim>\<open>corpus[i].split()\<close> raises
  \<^verbatim>\<open>AttributeError\<close> on an element that is not a string.
\<close>

fun corpus_loop ::
  "string list \<Rightarrow> (string \<rightharpoonup> string) \<Rightarrow> int \<Rightarrow> pyobj list \<Rightarrow> int list list
     \<Rightarrow> error + int list list" where
  "corpus_loop dictonary c_map unk_word_index [] sequences = Inr sequences"
| "corpus_loop dictonary c_map unk_word_index (NonStr # rest) sequences = Inl AttributeError"
| "corpus_loop dictonary c_map unk_word_index (Str text # rest) sequences =
     (case tokens_loop dictonary c_map unk_word_index (str_split text) [] of
        Inl e \<Rightarrow> Inl e
      | Inr sequence \<Rightarrow>
          corpus_loop dictonary c_map unk_word_index rest (sequences @ [sequence]))"

definition convert_to_indices ::
  "pyobj list \<Rightarrow> string list \<Rightarrow> (string \<rightharpoonup> string) \<Rightarrow> int \<Rightarrow> error + int list list" where
  "convert_to_indices corpus dictonary c_map unk_word_index =
     corpus_loop dictonary c_map unk_word_index corpus []"

text \<open>The default value of the parameter \<^verbatim>\<open>unk_word_index\<close>.\<close>

definition unk_word_index_default :: int where
  "unk_word_index_default = 399999"


section \<open>The training-time encoder (notebook 03)\<close>

text \<open>
  Notebook 03 defines \<^verbatim>\<open>remove_special_characters\<close> and \<^verbatim>\<open>convert_to_indices\<close> again, with
  the parameter spelled \<^verbatim>\<open>dictionary\<close>. The two functions and the loops are embedded a
  second time from that cell, under the suffix \<open>_nb03\<close>.
\<close>

definition remove_special_characters_nb03 :: "string \<Rightarrow> string" where
  "remove_special_characters_nb03 token = filter (\<lambda>c. c \<notin> set punctuation) token"

fun resolved_words_loop_nb03 ::
  "string list \<Rightarrow> int \<Rightarrow> string list \<Rightarrow> int list \<Rightarrow> error + int list" where
  "resolved_words_loop_nb03 dictionary unk_word_index [] sequence = Inr sequence"
| "resolved_words_loop_nb03 dictionary unk_word_index (resolved_word # rest) sequence =
     (case list_index dictionary resolved_word of
        Inr word_index \<Rightarrow>
          resolved_words_loop_nb03 dictionary unk_word_index rest (sequence @ [int word_index])
      | Inl ValueError \<Rightarrow>
          resolved_words_loop_nb03 dictionary unk_word_index rest (sequence @ [unk_word_index])
      | Inl e \<Rightarrow> Inl e)"

fun tokens_loop_nb03 ::
  "string list \<Rightarrow> (string \<rightharpoonup> string) \<Rightarrow> int \<Rightarrow> string list \<Rightarrow> int list \<Rightarrow> error + int list"
  where
  "tokens_loop_nb03 dictionary c_map unk_word_index [] sequence = Inr sequence"
| "tokens_loop_nb03 dictionary c_map unk_word_index (token # rest) sequence =
     (let word = str_lower token in
      case c_map word of
        Some expanded \<Rightarrow>
          (case resolved_words_loop_nb03 dictionary unk_word_index (str_split expanded) sequence
           of
             Inl e \<Rightarrow> Inl e
           | Inr sequence' \<Rightarrow> tokens_loop_nb03 dictionary c_map unk_word_index rest sequence')
      | None \<Rightarrow>
          (let clean_word = remove_special_characters_nb03 word in
           if length clean_word > 0 then
             (case list_index dictionary clean_word of
                Inr word_index \<Rightarrow>
                  tokens_loop_nb03 dictionary c_map unk_word_index rest
                    (sequence @ [int word_index])
              | Inl ValueError \<Rightarrow>
                  tokens_loop_nb03 dictionary c_map unk_word_index rest
                    (sequence @ [unk_word_index])
              | Inl e \<Rightarrow> Inl e)
           else tokens_loop_nb03 dictionary c_map unk_word_index rest sequence))"

fun corpus_loop_nb03 ::
  "string list \<Rightarrow> (string \<rightharpoonup> string) \<Rightarrow> int \<Rightarrow> pyobj list \<Rightarrow> int list list
     \<Rightarrow> error + int list list" where
  "corpus_loop_nb03 dictionary c_map unk_word_index [] sequences = Inr sequences"
| "corpus_loop_nb03 dictionary c_map unk_word_index (NonStr # rest) sequences =
     Inl AttributeError"
| "corpus_loop_nb03 dictionary c_map unk_word_index (Str text # rest) sequences =
     (case tokens_loop_nb03 dictionary c_map unk_word_index (str_split text) [] of
        Inl e \<Rightarrow> Inl e
      | Inr sequence \<Rightarrow>
          corpus_loop_nb03 dictionary c_map unk_word_index rest (sequences @ [sequence]))"

definition convert_to_indices_nb03 ::
  "pyobj list \<Rightarrow> string list \<Rightarrow> (string \<rightharpoonup> string) \<Rightarrow> int \<Rightarrow> error + int list list" where
  "convert_to_indices_nb03 corpus dictionary c_map unk_word_index =
     corpus_loop_nb03 dictionary c_map unk_word_index corpus []"


section \<open>The fixed-width formatter and the array library\<close>

text \<open>
  \<^verbatim>\<open>pad_sequences(sequences, maxlen=maxlen, padding='pre', truncating='post')\<close> of
  Keras, on a list of integer lists: the result starts as \<^verbatim>\<open>np.full((n, maxlen), 0)\<close>; an
  empty sequence leaves its row as it is; any other sequence is cut to
  \<^verbatim>\<open>trunc = s[:maxlen]\<close> and stored by \<^verbatim>\<open>x[idx, -len(trunc):] = trunc\<close>, which
  overwrites the last \<^verbatim>\<open>len(trunc)\<close> places of the row. The entries are kept as
  integers: the library stores them as 32-bit integers, which holds every vocabulary
  position below \<open>2^31\<close> and the sentinel unchanged.
\<close>

definition pad_row :: "nat \<Rightarrow> int list \<Rightarrow> int list" where
  "pad_row maxlen s =
     (let x = replicate maxlen 0 in
      if length s = 0 then x
      else (let trunc = take maxlen s in take (length x - length trunc) x @ trunc))"

definition pad_sequences :: "int list list \<Rightarrow> nat \<Rightarrow> int list list" where
  "pad_sequences sequences maxlen = map (pad_row maxlen) sequences"

text \<open>
  \<^verbatim>\<open>np.reshape(a, (r, c))\<close> of a two-dimensional array given by its rows: the elements
  are read row by row and cut into \<open>r\<close> rows of \<open>c\<close>; \<^verbatim>\<open>ValueError\<close> when the array
  does not hold \<open>r * c\<close> elements.
\<close>

fun rows_of :: "nat \<Rightarrow> nat \<Rightarrow> 'a list \<Rightarrow> 'a list list" where
  "rows_of 0 c xs = []"
| "rows_of (Suc r) c xs = take c xs # rows_of r c (drop c xs)"

definition reshape :: "'a list list \<Rightarrow> nat \<times> nat \<Rightarrow> error + 'a list list" where
  "reshape a shape =
     (let flat = concat a in
      if length flat = fst shape * snd shape
      then Inr (rows_of (fst shape) (snd shape) flat)
      else Inl ValueError)"

text \<open>
  \<^verbatim>\<open>argmax\<close> of one row: the position of the first largest entry, found by a scan that
  moves on only to a strictly larger entry; \<^verbatim>\<open>ValueError\<close> on an empty row. The scores
  are of any linearly ordered type; NumPy treats a NaN as the largest value, so a NaN is
  the top element of that order.
\<close>

fun argmax_loop :: "'a::linorder list \<Rightarrow> nat \<Rightarrow> 'a \<Rightarrow> nat \<Rightarrow> nat" where
  "argmax_loop [] i mp max_ind = max_ind"
| "argmax_loop (x # xs) i mp max_ind =
     (if mp < x then argmax_loop xs (Suc i) x i else argmax_loop xs (Suc i) mp max_ind)"

fun argmax :: "'a::linorder list \<Rightarrow> error + nat" where
  "argmax [] = Inl ValueError"
| "argmax (x # xs) = Inr (argmax_loop xs 1 x 0)"

text \<open>\<^verbatim>\<open>a.argmax(axis=1)\<close>: the \<^verbatim>\<open>argmax\<close> of every row.\<close>

fun argmax_axis1 :: "'a::linorder list list \<Rightarrow> error + nat list" where
  "argmax_axis1 [] = Inr []"
| "argmax_axis1 (row # rows) =
     (case argmax row of
        Inl e \<Rightarrow> Inl e
      | Inr i \<Rightarrow> (case argmax_axis1 rows of Inl e \<Rightarrow> Inl e | Inr js \<Rightarrow> Inr (i # js)))"

text \<open>\<^verbatim>\<open>a.item()\<close>: the only element of an array of size one, \<^verbatim>\<open>ValueError\<close> otherwise.\<close>

fun item :: "'a list \<Rightarrow> error + 'a" where
  "item [x] = Inr x"
| "item xs = Inl ValueError"


section \<open>The scoring service\<close>

text \<open>
  The globals that \<^verbatim>\<open>init()\<close> assigns. \<^verbatim>\<open>init\<close> catches its own exceptions, so each global
  may be left unassigned (\<open>None\<close>), and reading it then raises \<^verbatim>\<open>NameError\<close>. The session
  is the inference engine: the function from the row that \<^verbatim>\<open>run\<close> passes (converted to
  \<^verbatim>\<open>float32\<close> on the way) to the first output of \<^verbatim>\<open>onnx_session.run\<close>, an array of one row
  of class scores per input row.
\<close>

record 's globals =
  dictonary :: "string list option"
  contractions :: "(string \<rightharpoonup> string) option"
  onnx_session :: "(int list list \<Rightarrow> error + 's list list) option"

text \<open>
  \<^verbatim>\<open>np.array(json.loads(raw_data))\<close>: an array without a length (the payload was a single
  value), or an array of a length with its elements.
\<close>

datatype ndarray = Array0d | Array1d "pyobj list"

text \<open>What \<^verbatim>\<open>run\<close> hands back: the integer label, or the text \<^verbatim>\<open>str(e)\<close> of an exception.\<close>

datatype response = Label nat | ErrorText error

text \<open>How a call ends: it returns a value or an exception leaves it.\<close>

datatype 'a outcome = Returns 'a | Raises error

definition maxSeqLength :: nat where
  "maxSeqLength = 125"

text \<open>
  The statements of \<^verbatim>\<open>run\<close> between its messages \<^verbatim>\<open>Processing input...\<close> and
  \<^verbatim>\<open>Done processing input.\<close>, which build \<^verbatim>\<open>input_data\<close>. \<open>loads\<close> is the library step
  \<^verbatim>\<open>np.array(json.loads(raw_data))\<close>. The arguments of \<^verbatim>\<open>convert_to_indices\<close> are read
  before the call, so an unassigned global raises first; \<^verbatim>\<open>len(corpus)\<close> raises
  \<^verbatim>\<open>TypeError\<close> on an array without a length.
\<close>

definition process_input ::
  "(string \<Rightarrow> error + ndarray) \<Rightarrow> 's globals \<Rightarrow> string \<Rightarrow> error + int list list" where
  "process_input loads g raw_data =
     (case loads raw_data of
        Inl e \<Rightarrow> Inl e
      | Inr input_data_raw \<Rightarrow>
     (case dictonary g of
        None \<Rightarrow> Inl NameError
      | Some d \<Rightarrow>
     (case contractions g of
        None \<Rightarrow> Inl NameError
      | Some c \<Rightarrow>
     (case input_data_raw of
        Array0d \<Rightarrow> Inl TypeError
      | Array1d corpus \<Rightarrow>
     (case convert_to_indices corpus d c unk_word_index_default of
        Inl e \<Rightarrow> Inl e
      | Inr input_data_indices \<Rightarrow>
     (let input_data_padded = pad_sequences input_data_indices maxSeqLength
      in reshape input_data_padded (1, maxSeqLength)))))))"

text \<open>
  The body of the \<^verbatim>\<open>try\<close> block of \<^verbatim>\<open>run\<close>: the input is built, the session is run on
  it, and the label is \<^verbatim>\<open>[0].argmax(axis=1).item()\<close> of its outputs.
\<close>

definition run_body ::
  "(string \<Rightarrow> error + ndarray) \<Rightarrow> ('s::linorder) globals \<Rightarrow> string \<Rightarrow> error + nat" where
  "run_body loads g raw_data =
     (case process_input loads g raw_data of
        Inl e \<Rightarrow> Inl e
      | Inr input_data \<Rightarrow>
     (case onnx_session g of
        None \<Rightarrow> Inl NameError
      | Some session \<Rightarrow>
     (case session input_data of
        Inl e \<Rightarrow> Inl e
      | Inr scores \<Rightarrow>
     (case argmax_axis1 scores of
        Inl e \<Rightarrow> Inl e
      | Inr labels \<Rightarrow> item labels))))"

text \<open>
  \<^verbatim>\<open>run\<close>: the result of the \<^verbatim>\<open>try\<close> block is returned, and \<^verbatim>\<open>except Exception as e\<close>
  returns \<^verbatim>\<open>str(e)\<close>.
\<close>

definition run ::
  "(string \<Rightarrow> error + ndarray) \<Rightarrow> ('s::linorder) globals \<Rightarrow> string \<Rightarrow> response outcome" where
  "run loads g raw_data =
     (case run_body loads g raw_data of
        Inr result \<Rightarrow> Returns (Label result)
      | Inl e \<Rightarrow> Returns (ErrorText e))"


section \<open>The encoder as the specification words it\<close>

text \<open>
  The specification describes the encoder token by token: a token is lowercased; a key of
  the contraction map becomes the words of its expansion; any other token becomes its
  cleaned form, or nothing when that is empty. Each remaining word is matched exactly
  against the vocabulary and is its position there, or the sentinel.
\<close>

definition index_or_unk :: "string list \<Rightarrow> int \<Rightarrow> string \<Rightarrow> int" where
  "index_or_unk d unk w = (case list_index d w of Inr i \<Rightarrow> int i | Inl e \<Rightarrow> unk)"

definition transformed_words :: "(string \<rightharpoonup> string) \<Rightarrow> string \<Rightarrow> string list" where
  "transformed_words c token =
     (case c (str_lower token) of
        Some expanded \<Rightarrow> str_split expanded
      | None \<Rightarrow>
          (if remove_special_characters (str_lower token) = [] then []
           else [remove_special_characters (str_lower token)]))"

definition encode_token :: "string list \<Rightarrow> (string \<rightharpoonup> string) \<Rightarrow> int \<Rightarrow> string \<Rightarrow> int list" where
  "encode_token d c unk token = map (index_or_unk d unk) (transformed_words c token)"

definition encode_text :: "string list \<Rightarrow> (string \<rightharpoonup> string) \<Rightarrow> int \<Rightarrow> string \<Rightarrow> int list" where
  "encode_text d c unk text = concat (map (encode_token d c unk) (str_split text))"

text \<open>A single token: a non-empty string without whitespace.\<close>

definition single_token :: "string \<Rightarrow> bool" where
  "single_token t = (t \<noteq> [] \<and> (\<forall>ch \<in> set t. \<not> isspace ch))"


section \<open>Example data\<close>

text \<open>A small vocabulary, contraction map and engine, used to run the definitions.\<close>

definition example_vocabulary :: "string list" where
  "example_vocabulary =
     [''the'', ''i'', ''crashed'', ''my'', ''car'', ''into'', ''a'', ''pole'', ''cannot'', ''and'']"

definition example_contractions :: "string \<rightharpoonup> string" where
  "example_contractions = [''can't'' \<mapsto> ''cannot'', ''won't'' \<mapsto> ''will not'']"

text \<open>
  The library step on a few payloads: batches of one, three and no claim texts, a single
  string, a batch of one number, and text that is no JSON (\<^verbatim>\<open>json.JSONDecodeError\<close> is a
  \<^verbatim>\<open>ValueError\<close>).
\<close>

definition example_loads :: "string \<Rightarrow> error + ndarray" where
  \<open>example_loads raw_data =
     (if raw_data = ''["claim A"]'' then Inr (Array1d [Str ''claim A''])
      else if raw_data = ''["claim A","claim B","claim C"]''
        then Inr (Array1d [Str ''claim A'', Str ''claim B'', Str ''claim C''])
      else if raw_data = ''[]'' then Inr (Array1d [])
      else if raw_data = ''"claim A"'' then Inr Array0d
      else if raw_data = ''[1]'' then Inr (Array1d [NonStr])
      else Inl ValueError)\<close>

text \<open>
  Three engines: one scores every row 1/4 against 3/4, one scores both classes 1/2, one
  fails.
\<close>

definition example_session :: "int list list \<Rightarrow> error + real list list" where
  "example_session input_data = Inr (map (\<lambda>row. [1 / 4, 3 / 4]) input_data)"

definition example_tied_session :: "int list list \<Rightarrow> error + real list list" where
  "example_tied_session input_data = Inr (map (\<lambda>row. [1 / 2, 1 / 2]) input_data)"

definition example_failing_session :: "int list list \<Rightarrow> error + real list list" where
  "example_failing_session input_data = Inl (OtherException ''InvalidArgument'')"

definition example_globals ::
  "(int list list \<Rightarrow> error + real list list) \<Rightarrow> real globals" where
  "example_globals session =
     \<lparr>dictonary = Some example_vocabulary, contractions = Some example_contractions,
      onnx_session = Some session\<rparr>"


section \<open>The loops of the encoder, in closed form\<close>

lemma list_index_error: "list_index xs v = Inl e \<Longrightarrow> e = ValueError"
  by (induction xs) (auto split: if_splits sum.splits)

lemma list_index_Inr: "list_index xs v = Inr i \<Longrightarrow> i < length xs \<and> xs ! i = v"
  by (induction xs arbitrary: i) (auto split: if_splits sum.splits)

lemma list_index_notin: "v \<notin> set xs \<Longrightarrow> list_index xs v = Inl ValueError"
  by (induction xs) auto

lemma list_index_distinct: "distinct xs \<Longrightarrow> K < length xs \<Longrightarrow> list_index xs (xs ! K) = Inr K"
proof (induction xs arbitrary: K)
  case Nil
  then show ?case by simp
next
  case (Cons x xs)
  show ?case
  proof (cases K)
    case 0
    then show ?thesis by simp
  next
    case (Suc k)
    with Cons.prems have "x \<noteq> xs ! k" "distinct xs" "k < length xs" by auto
    with Cons.IH [of k] Suc show ?thesis by simp
  qed
qed

lemma index_or_unk_cases:
  "list_index d w = Inr i \<Longrightarrow> index_or_unk d unk w = int i"
  "list_index d w = Inl e \<Longrightarrow> index_or_unk d unk w = unk"
  by (simp_all add: index_or_unk_def)

lemma resolved_words_loop_eq:
  "resolved_words_loop d unk ws acc = Inr (acc @ map (index_or_unk d unk) ws)"
proof (induction ws arbitrary: acc)
  case Nil
  then show ?case by simp
next
  case (Cons w ws)
  show ?case
  proof (cases "list_index d w")
    case (Inl e)
    then have "e = ValueError" by (rule list_index_error)
    with Inl Cons.IH show ?thesis by (simp add: index_or_unk_def)
  next
    case (Inr i)
    with Cons.IH show ?thesis by (simp add: index_or_unk_def)
  qed
qed

lemma tokens_loop_eq:
  "tokens_loop d c unk ts acc = Inr (acc @ concat (map (encode_token d c unk) ts))"
proof (induction ts arbitrary: acc)
  case Nil
  then show ?case by simp
next
  case (Cons t ts)
  show ?case
  proof (cases "c (str_lower t)")
    case (Some expanded)
    with Cons.IH show ?thesis
      by (simp add: resolved_words_loop_eq encode_token_def transformed_words_def)
  next
    case None
    show ?thesis
    proof (cases "remove_special_characters (str_lower t) = []")
      case True
      with None Cons.IH show ?thesis
        by (simp add: encode_token_def transformed_words_def)
    next
      case False
      show ?thesis
      proof (cases "list_index d (remove_special_characters (str_lower t))")
        case (Inl e)
        then have "e = ValueError" by (rule list_index_error)
        with Inl None False Cons.IH show ?thesis
          by (simp add: encode_token_def transformed_words_def index_or_unk_def)
      next
        case (Inr i)
        with None False Cons.IH show ?thesis
          by (simp add: encode_token_def transformed_words_def index_or_unk_def)
      qed
    qed
  qed
qed

lemma corpus_loop_strings:
  "corpus_loop d c unk (map Str texts) acc = Inr (acc @ map (encode_text d c unk) texts)"
  by (induction texts arbitrary: acc) (simp_all add: tokens_loop_eq encode_text_def)

lemma convert_to_indices_strings:
  "convert_to_indices (map Str texts) d c unk = Inr (map (encode_text d c unk) texts)"
  by (simp add: convert_to_indices_def corpus_loop_strings)

lemma split_from_no_space:
  "\<forall>ch \<in> set t. \<not> isspace ch \<Longrightarrow> split_from t w = (if w @ t = [] then [] else [w @ t])"
  by (induction t arbitrary: w) auto

lemma str_split_single_token: "single_token t \<Longrightarrow> str_split t = [t]"
  by (simp add: single_token_def str_split_def split_from_no_space)

lemma encode_text_single_token: "single_token t \<Longrightarrow> encode_text d c unk t = encode_token d c unk t"
  by (simp add: encode_text_def str_split_single_token)


lemma corpus_loop_Inr:
  "corpus_loop d c unk corpus acc = Inr seqs \<Longrightarrow>
   \<exists>texts. corpus = map Str texts \<and> seqs = acc @ map (encode_text d c unk) texts"
proof (induction d c unk corpus acc rule: corpus_loop.induct)
  case (1 d c unk sequences)
  then show ?case by simp
next
  case (2 d c unk rest sequences)
  then show ?case by simp
next
  case (3 d c unk claim rest sequences)
  from "3.prems" have
    "corpus_loop d c unk rest (sequences @ [encode_text d c unk claim]) = Inr seqs"
    by (simp add: tokens_loop_eq encode_text_def)
  with "3.IH" [of "encode_text d c unk claim"] obtain texts where
    "rest = map Str texts"
    "seqs = (sequences @ [encode_text d c unk claim]) @ map (encode_text d c unk) texts"
    by (auto simp: tokens_loop_eq encode_text_def)
  then show ?case by (intro exI [where x = "claim # texts"]) simp
qed

lemma index_or_unk_range:
  "index_or_unk d unk w = unk \<or> (0 \<le> index_or_unk d unk w \<and> index_or_unk d unk w < int (length d))"
  by (cases "list_index d w") (auto simp: index_or_unk_def dest: list_index_Inr)

lemma encode_text_range:
  "x \<in> set (encode_text d c unk claim) \<Longrightarrow> x = unk \<or> (0 \<le> x \<and> x < int (length d))"
  using index_or_unk_range by (auto simp: encode_text_def encode_token_def)


section \<open>The encoder\<close>

text \<open>
  C7: every integer in every index sequence that \<^verbatim>\<open>convert_to_indices\<close> produces with its
  default sentinel is a position of the vocabulary, from 0 to its length minus one, or
  the sentinel 399999, a constant that does not depend on the vocabulary. On a corpus of
  strings the encoder does return, one sequence per text.
\<close>

theorem index_values_in_range:
  "unk_word_index_default = 399999 \<and>
   (\<exists>seqs. convert_to_indices (map Str texts) d c unk_word_index_default = Inr seqs \<and>
      length seqs = length texts) \<and>
   (\<forall>seqs. convert_to_indices corpus d c unk_word_index_default = Inr seqs \<longrightarrow>
      (\<forall>s \<in> set seqs. \<forall>x \<in> set s. (0 \<le> x \<and> x < int (length d)) \<or> x = 399999))"
proof (intro conjI allI impI ballI)
  show "unk_word_index_default = 399999" by (simp add: unk_word_index_default_def)
next
  show "\<exists>seqs. convert_to_indices (map Str texts) d c unk_word_index_default = Inr seqs \<and>
      length seqs = length texts"
    by (simp add: convert_to_indices_strings)
next
  fix seqs s x
  assume r: "convert_to_indices corpus d c unk_word_index_default = Inr seqs"
    and s: "s \<in> set seqs" and x: "x \<in> set s"
  from r obtain texts where "seqs = map (encode_text d c unk_word_index_default) texts"
    unfolding convert_to_indices_def by (auto dest: corpus_loop_Inr)
  with s obtain claim where "s = encode_text d c unk_word_index_default claim" by auto
  with x have "x = unk_word_index_default \<or> (0 \<le> x \<and> x < int (length d))"
    by (simp add: encode_text_range)
  then show "(0 \<le> x \<and> x < int (length d)) \<or> x = 399999"
    by (auto simp: unk_word_index_default_def)
qed


theorem index_values_in_range_witness:
  "convert_to_indices [Str ''I crashed my Zebra''] example_vocabulary example_contractions
     unk_word_index_default = Inr [[1, 2, 3, 399999]] \<and>
   list_all (list_all (\<lambda>x. (0 \<le> x \<and> x < int (length example_vocabulary)) \<or> x = 399999))
     [[1, 2, 3, 399999]]"
proof -
  have h: "convert_to_indices [Str ''I crashed my Zebra''] example_vocabulary
      example_contractions unk_word_index_default = Inr [[1, 2, 3, 399999]]"
    by code_simp
  from index_values_in_range [of "[]" example_vocabulary example_contractions
      "[Str ''I crashed my Zebra'']"] h
  have "\<forall>s \<in> set [[1, 2, 3, 399999 :: int]]. \<forall>x \<in> set s.
      (0 \<le> x \<and> x < int (length example_vocabulary)) \<or> x = 399999"
    by blast
  with h show ?thesis by (simp add: list_all_iff)
qed

lemma index_or_unk_notin: "w \<notin> set d \<Longrightarrow> index_or_unk d unk w = unk"
  by (simp add: index_or_unk_def list_index_notin)

lemma index_or_unk_distinct:
  "distinct d \<Longrightarrow> i < length d \<Longrightarrow> index_or_unk d unk (d ! i) = int i"
  by (simp add: index_or_unk_def list_index_distinct)

lemma convert_single_token:
  "single_token t \<Longrightarrow>
   convert_to_indices [Str t] d c unk = Inr [map (index_or_unk d unk) (transformed_words c t)]"
  using convert_to_indices_strings [of "[t]" d c unk]
  by (simp add: encode_text_single_token encode_token_def)





lemma lower_Cant: "str_lower ''Can't'' = ''can't''" by code_simp
lemma single_Cant: "single_token ''Can't''" by code_simp
lemma split_cannot: "str_split ''cannot'' = [''cannot'']" by code_simp

lemma list_index_first:
  "i < length xs \<Longrightarrow> xs ! i = v \<Longrightarrow> \<forall>j<i. xs ! j \<noteq> v \<Longrightarrow> list_index xs v = Inr i"
proof (induction xs arbitrary: i)
  case Nil
  then show ?case by simp
next
  case (Cons x xs)
  show ?case
  proof (cases i)
    case 0
    with Cons.prems show ?thesis by simp
  next
    case (Suc k)
    with Cons.prems have "x \<noteq> v" by auto
    moreover from Cons.prems Suc have "k < length xs" "xs ! k = v" by auto
    moreover from Cons.prems Suc have "\<forall>j<k. xs ! j \<noteq> v" by auto
    ultimately show ?thesis using Cons.IH [of k] Suc by simp
  qed
qed

lemma encode_token_contraction:
  "c (str_lower t) = Some expanded \<Longrightarrow>
   encode_token d c unk t = map (index_or_unk d unk) (str_split expanded)"
  by (simp add: encode_token_def transformed_words_def)

text \<open>
  C4: with the entry \<^verbatim>\<open>can't\<close> to \<^verbatim>\<open>cannot\<close> in the contraction map and \<^verbatim>\<open>cannot\<close> at
  position \<open>K\<close> of a vocabulary of distinct words, the single token \<^verbatim>\<open>Can't\<close> is encoded
  as \<open>[K]\<close>. In general a token whose lowercased form is a key of the contraction map is
  replaced by the words of its expansion, alone or anywhere among the tokens of any text
  of a corpus: the loop goes on, after the tokens before it, with their entries followed
  by one entry per expansion word, and the text is encoded as the entries of the tokens
  before, those of the expansion words and those of the tokens after. Each expansion
  word is looked up on its own, by exact match and without cleaning: a word that is not
  in the vocabulary gives the sentinel, and a word of the vocabulary gives its first
  position there.
\<close>

theorem contraction_expansion:
  "(c ''can't'' = Some ''cannot'' \<and> distinct d \<and> K < length d \<and> d ! K = ''cannot'' \<longrightarrow>
      convert_to_indices [Str ''Can't''] d c unk_word_index_default = Inr [[int K]]) \<and>
   (single_token t \<and> c (str_lower t) = Some expanded \<longrightarrow>
      convert_to_indices [Str t] d c unk =
        Inr [map (index_or_unk d unk) (str_split expanded)]) \<and>
   (c (str_lower t) = Some expanded \<longrightarrow>
      tokens_loop d c unk (before @ t # after) acc =
        (case tokens_loop d c unk before acc of
           Inl e \<Rightarrow> Inl e
         | Inr sequence \<Rightarrow>
             tokens_loop d c unk after
               (sequence @ map (index_or_unk d unk) (str_split expanded)))) \<and>
   (str_split claim = before @ t # after \<and> c (str_lower t) = Some expanded \<longrightarrow>
      convert_to_indices (map Str (earlier @ claim # later)) d c unk =
        Inr (map (encode_text d c unk) earlier @
             [concat (map (encode_token d c unk) before) @
              map (index_or_unk d unk) (str_split expanded) @
              concat (map (encode_token d c unk) after)] @
             map (encode_text d c unk) later)) \<and>
   (w \<notin> set d \<longrightarrow> index_or_unk d unk w = unk) \<and>
   (distinct d \<and> i < length d \<and> d ! i = w \<longrightarrow> index_or_unk d unk w = int i) \<and>
   (i < length d \<and> d ! i = w \<and> (\<forall>j<i. d ! j \<noteq> w) \<longrightarrow> index_or_unk d unk w = int i)"
proof (intro conjI impI; (elim conjE)?)
  assume "c ''can't'' = Some ''cannot''" "distinct d" "K < length d" "d ! K = ''cannot''"
  then show "convert_to_indices [Str ''Can't''] d c unk_word_index_default = Inr [[int K]]"
    using index_or_unk_distinct [of d K unk_word_index_default]
    by (simp add: convert_single_token single_Cant transformed_words_def lower_Cant
        split_cannot)
next
  assume "single_token t" "c (str_lower t) = Some expanded"
  then show "convert_to_indices [Str t] d c unk =
      Inr [map (index_or_unk d unk) (str_split expanded)]"
    by (simp add: convert_single_token transformed_words_def)
next
  assume "c (str_lower t) = Some expanded"
  then show "tokens_loop d c unk (before @ t # after) acc =
        (case tokens_loop d c unk before acc of
           Inl e \<Rightarrow> Inl e
         | Inr sequence \<Rightarrow>
             tokens_loop d c unk after
               (sequence @ map (index_or_unk d unk) (str_split expanded)))"
    by (simp add: tokens_loop_eq encode_token_contraction)
next
  assume "str_split claim = before @ t # after" "c (str_lower t) = Some expanded"
  then have "encode_text d c unk claim =
      concat (map (encode_token d c unk) before) @
      map (index_or_unk d unk) (str_split expanded) @
      concat (map (encode_token d c unk) after)"
    by (simp add: encode_text_def encode_token_contraction)
  then show "convert_to_indices (map Str (earlier @ claim # later)) d c unk =
        Inr (map (encode_text d c unk) earlier @
             [concat (map (encode_token d c unk) before) @
              map (index_or_unk d unk) (str_split expanded) @
              concat (map (encode_token d c unk) after)] @
             map (encode_text d c unk) later)"
    using convert_to_indices_strings [of "earlier @ claim # later" d c unk] by simp
next
  assume "w \<notin> set d"
  then show "index_or_unk d unk w = unk" by (rule index_or_unk_notin)
next
  assume "distinct d" "i < length d" "d ! i = w"
  then show "index_or_unk d unk w = int i"
    using index_or_unk_distinct [of d i unk] by simp
next
  assume "i < length d" "d ! i = w" "\<forall>j<i. d ! j \<noteq> w"
  then show "index_or_unk d unk w = int i"
    by (simp add: index_or_unk_def list_index_first)
qed

theorem contraction_expansion_witness:
  "example_contractions ''can't'' = Some ''cannot'' \<and> distinct example_vocabulary \<and>
   8 < length example_vocabulary \<and> example_vocabulary ! 8 = ''cannot'' \<and>
   convert_to_indices [Str ''Can't''] example_vocabulary example_contractions
     unk_word_index_default = Inr [[8]] \<and>
   single_token ''WON'T'' \<and> example_contractions (str_lower ''WON'T'') = Some ''will not'' \<and>
   convert_to_indices [Str ''WON'T''] example_vocabulary example_contractions 399999 =
     Inr [map (index_or_unk example_vocabulary 399999) [''will'', ''not'']] \<and>
   ''will'' \<notin> set example_vocabulary \<and> index_or_unk example_vocabulary 399999 ''will'' = 399999 \<and>
   index_or_unk example_vocabulary 399999 ''cannot'' = 8 \<and>
   str_split ''my car Can't'' = [''my'', ''car''] @ ''Can't'' # [] \<and>
   example_contractions (str_lower ''Can't'') = Some ''cannot'' \<and>
   tokens_loop example_vocabulary example_contractions 399999 ([''my'', ''car''] @ ''Can't'' # [])
     [] = Inr [3, 4, 8] \<and>
   convert_to_indices (map Str ([''the pole''] @ ''my car Can't'' # [''a car'']))
     example_vocabulary example_contractions 399999 = Inr [[0, 7], [3, 4, 8], [6, 4]]"
proof -
  have a: "example_contractions ''can't'' = Some ''cannot''" by code_simp
  have b: "distinct example_vocabulary" by code_simp
  have c: "8 < length example_vocabulary" by code_simp
  have d: "example_vocabulary ! 8 = ''cannot''" by code_simp
  have e: "single_token ''WON'T''" by code_simp
  have f: "example_contractions (str_lower ''WON'T'') = Some ''will not''" by code_simp
  have g: "''will'' \<notin> set example_vocabulary" by code_simp
  have h: "str_split ''will not'' = [''will'', ''not'']" by code_simp
  have k: "str_split ''my car Can't'' = [''my'', ''car''] @ ''Can't'' # []" by code_simp
  have l: "example_contractions (str_lower ''Can't'') = Some ''cannot''" by code_simp
  have m: "tokens_loop example_vocabulary example_contractions 399999 [''my'', ''car''] [] =
      Inr [3, 4]" by code_simp
  have n: "map (index_or_unk example_vocabulary 399999) (str_split ''cannot'') = [8]"
    by code_simp
  have p: "map (encode_text example_vocabulary example_contractions 399999) [''the pole''] =
      [[0, 7]]"
    "map (encode_text example_vocabulary example_contractions 399999) [''a car''] = [[6, 4]]"
    "concat (map (encode_token example_vocabulary example_contractions 399999)
       [''my'', ''car'']) = [3, 4]"
    by code_simp+
  note w1 = contraction_expansion [of example_contractions example_vocabulary 8 "''WON'T''"
      "''will not''" 399999 "[]" "[]" "[]" "''WON'T''" "[]" "[]" "''will''" 8]
  note w2 = contraction_expansion [of example_contractions example_vocabulary 8 "''Can't''"
      "''cannot''" 399999 "[''my'', ''car'']" "[]" "[]" "''my car Can't''" "[''the pole'']"
      "[''a car'']" "''cannot''" 8]
  from w1 a b c d e f g h
  have r1: "convert_to_indices [Str ''Can't''] example_vocabulary example_contractions
     unk_word_index_default = Inr [[8]]"
    "convert_to_indices [Str ''WON'T''] example_vocabulary example_contractions 399999 =
     Inr [map (index_or_unk example_vocabulary 399999) [''will'', ''not'']]"
    "index_or_unk example_vocabulary 399999 ''will'' = 399999"
    by simp_all
  from w2 b c d have r2: "index_or_unk example_vocabulary 399999 ''cannot'' = 8" by simp
  from w2 l m n
  have r3: "tokens_loop example_vocabulary example_contractions 399999
      ([''my'', ''car''] @ ''Can't'' # []) [] = Inr [3, 4, 8]" by simp
  from w2 k l n p
  have r4: "convert_to_indices (map Str ([''the pole''] @ ''my car Can't'' # [''a car'']))
     example_vocabulary example_contractions 399999 = Inr [[0, 7], [3, 4, 8], [6, 4]]"
    by simp
  from a b c d e f g k l r1 r2 r3 r4 show ?thesis by simp
qed

lemma punctuation_lower: "ch \<in> set punctuation \<Longrightarrow> lower_char ch = ch"
  by (auto simp: punctuation_def lower_char_def)

lemma punctuation_not_space: "ch \<in> set punctuation \<Longrightarrow> \<not> isspace ch"
  by (auto simp: punctuation_def isspace_def)

lemma str_lower_punctuation: "set t \<subseteq> set punctuation \<Longrightarrow> str_lower t = t"
  unfolding str_lower_def by (induction t) (simp_all add: punctuation_lower)

lemma remove_special_characters_punctuation:
  "set t \<subseteq> set punctuation \<Longrightarrow> remove_special_characters t = []"
  unfolding remove_special_characters_def by (induction t) auto

lemma encode_token_punctuation:
  "set t \<subseteq> set punctuation \<Longrightarrow> c t = None \<Longrightarrow> encode_token d c unk t = []"
  by (simp add: encode_token_def transformed_words_def str_lower_punctuation
      remove_special_characters_punctuation)

text \<open>
  C6, as amended: a token made of ASCII punctuation characters only that is no key of
  the contraction map contributes nothing: alone it is encoded as the empty sequence,
  and among other tokens the loop gives the result it gives without it.
\<close>

theorem punctuation_token_contributes_nothing:
  "t \<noteq> [] \<and> set t \<subseteq> set punctuation \<and> c t = None \<longrightarrow>
     convert_to_indices [Str t] d c unk = Inr [[]] \<and>
     tokens_loop d c unk (before @ t # after) acc = tokens_loop d c unk (before @ after) acc"
proof (intro impI conjI; elim conjE)
  assume t: "t \<noteq> []" "set t \<subseteq> set punctuation" and k: "c t = None"
  from t have "single_token t"
    by (auto simp: single_token_def dest: punctuation_not_space)
  with t k show "convert_to_indices [Str t] d c unk = Inr [[]]"
    using convert_to_indices_strings [of "[t]" d c unk]
    by (simp add: encode_text_single_token encode_token_punctuation)
  from t k show "tokens_loop d c unk (before @ t # after) acc =
      tokens_loop d c unk (before @ after) acc"
    by (simp add: tokens_loop_eq encode_token_punctuation)
qed

theorem punctuation_token_contributes_nothing_witness:
  "''...'' \<noteq> [] \<and> set ''...'' \<subseteq> set punctuation \<and> example_contractions ''...'' = None \<and>
   convert_to_indices [Str ''...''] example_vocabulary example_contractions 399999 = Inr [[]] \<and>
   tokens_loop example_vocabulary example_contractions 399999 [''my'', ''...'', ''car''] [] =
     Inr [3, 4] \<and>
   tokens_loop example_vocabulary example_contractions 399999 [''my'', ''car''] [] = Inr [3, 4]"
proof -
  have a: "set ''...'' \<subseteq> set punctuation" by code_simp
  have b: "example_contractions ''...'' = None" by code_simp
  have c: "tokens_loop example_vocabulary example_contractions 399999 [''my'', ''car''] [] =
     Inr [3, 4]" by code_simp
  from punctuation_token_contributes_nothing [of "''...''" example_contractions
      example_vocabulary 399999 "[''my'']" "[''car'']" "[]"] a b c
  show ?thesis by simp
qed

text \<open>
  The claim C6 as it is written fails on a punctuation token that is a key of the
  contraction map: the key is looked up before the token is cleaned, and the words of
  its expansion are appended.
\<close>

theorem punctuation_token_counterexample:
  "''&'' \<noteq> [] \<and> set ''&'' \<subseteq> set punctuation \<and>
   convert_to_indices [Str ''&''] example_vocabulary [''&'' \<mapsto> ''and''] unk_word_index_default
     = Inr [[9]] \<and>
   tokens_loop example_vocabulary [''&'' \<mapsto> ''and''] unk_word_index_default
     [''my'', ''&'', ''car''] [] = Inr [3, 9, 4] \<and>
   tokens_loop example_vocabulary [''&'' \<mapsto> ''and''] unk_word_index_default
     [''my'', ''car''] [] = Inr [3, 4]"
  by code_simp


section \<open>The fixed-width formatter\<close>

lemma pad_row_length: "length (pad_row maxlen s) = maxlen"
  by (simp add: pad_row_def Let_def)

lemma pad_row_short:
  "length s < maxlen \<Longrightarrow> pad_row maxlen s = replicate (maxlen - length s) 0 @ s"
  by (cases s) (simp_all add: pad_row_def Let_def)

lemma pad_row_long: "maxlen \<le> length s \<Longrightarrow> pad_row maxlen s = take maxlen s"
  by (cases s) (simp_all add: pad_row_def Let_def)

text \<open>
  C3: for every index sequence the formatter produces one row of length exactly 125: a
  sequence shorter than 125 is preceded by zeros, as many as are missing, and keeps its
  order; a sequence of length 125 or more is cut to its first 125 entries.
\<close>

theorem encoded_row_fixed_width:
  "\<exists>row. pad_sequences [xs] maxSeqLength = [row] \<and> length row = 125 \<and>
     (length xs < 125 \<longrightarrow> row = replicate (125 - length xs) 0 @ xs) \<and>
     (125 \<le> length xs \<longrightarrow> row = take 125 xs)"
proof (intro exI conjI impI)
  show "pad_sequences [xs] maxSeqLength = [pad_row 125 xs]"
    by (simp add: pad_sequences_def maxSeqLength_def)
  show "length (pad_row 125 xs) = 125"
    by (rule pad_row_length)
  show "pad_row 125 xs = replicate (125 - length xs) 0 @ xs" if "length xs < 125"
    using that by (rule pad_row_short)
  show "pad_row 125 xs = take 125 xs" if "125 \<le> length xs"
    using that by (rule pad_row_long)
qed

theorem encoded_row_fixed_width_witness:
  "length [1, 2, 3, 399999 :: int] < 125 \<and>
   pad_sequences [[1, 2, 3, 399999]] maxSeqLength = [replicate 121 0 @ [1, 2, 3, 399999]] \<and>
   125 \<le> length (map int [1..<131]) \<and>
   pad_sequences [map int [1..<131]] maxSeqLength = [map int [1..<126]]"
proof -
  have a: "take 125 (map int [1..<131]) = map int [1..<126]" by code_simp
  have b: "length (map int [1..<131]) = 130" by simp
  from encoded_row_fixed_width [of "[1, 2, 3, 399999]"]
    encoded_row_fixed_width [of "map int [1..<131]"] a b
  show ?thesis by auto
qed


section \<open>Training and serving encode alike\<close>

lemma resolved_words_loop_nb03_eq:
  "resolved_words_loop_nb03 d unk ws acc = resolved_words_loop d unk ws acc"
  by (induction ws arbitrary: acc) (auto split: sum.splits error.splits)

lemma tokens_loop_nb03_eq:
  "tokens_loop_nb03 d c unk ts acc = tokens_loop d c unk ts acc"
  by (induction ts arbitrary: acc)
    (auto simp: Let_def resolved_words_loop_nb03_eq remove_special_characters_nb03_def
      remove_special_characters_def split: option.splits sum.splits error.splits)

lemma corpus_loop_nb03_eq:
  "corpus_loop_nb03 d c unk corpus acc = corpus_loop d c unk corpus acc"
  by (induction d c unk corpus acc rule: corpus_loop.induct)
    (auto simp: tokens_loop_nb03_eq split: sum.splits)


text \<open>
  C10: the encoder of notebook 03 and the encoder of the scoring service are the same
  function: on every token their \<^verbatim>\<open>remove_special_characters\<close> agree, and on every
  corpus, vocabulary, contraction map and sentinel their \<^verbatim>\<open>convert_to_indices\<close> return the
  same result.
\<close>

theorem encoders_agree:
  "remove_special_characters_nb03 token = remove_special_characters token \<and>
   convert_to_indices_nb03 corpus d c unk = convert_to_indices corpus d c unk"
  by (simp add: remove_special_characters_nb03_def remove_special_characters_def
      convert_to_indices_nb03_def convert_to_indices_def corpus_loop_nb03_eq)




section \<open>The scoring service\<close>

lemma corpus_loop_NonStr:
  "NonStr \<in> set corpus \<Longrightarrow> corpus_loop d c unk corpus acc = Inl AttributeError"
  by (induction d c unk corpus acc rule: corpus_loop.induct) (auto simp: tokens_loop_eq)

lemma run_body_error: "run_body loads g raw_data = Inl e \<Longrightarrow> run loads g raw_data = Returns (ErrorText e)"
  by (simp add: run_def)

lemma process_input_error:
  "process_input loads g raw_data = Inl e \<Longrightarrow> run_body loads g raw_data = Inl e"
  by (simp add: run_body_def)

lemma process_input_strings:
  "loads raw_data = Inr (Array1d (map Str texts)) \<Longrightarrow> dictonary g = Some d \<Longrightarrow>
   contractions g = Some c \<Longrightarrow>
   process_input loads g raw_data =
     reshape (pad_sequences (map (encode_text d c unk_word_index_default) texts) maxSeqLength)
       (1, maxSeqLength)"
  by (simp add: process_input_def convert_to_indices_strings)

lemma length_concat_pad_sequences:
  "length (concat (pad_sequences seqs maxlen)) = length seqs * maxlen"
  by (induction seqs) (simp_all add: pad_sequences_def pad_row_length)

lemma process_input_batch_not_one:
  "loads raw_data = Inr (Array1d (map Str texts)) \<Longrightarrow> dictonary g = Some d \<Longrightarrow>
   contractions g = Some c \<Longrightarrow> length texts \<noteq> 1 \<Longrightarrow>
   process_input loads g raw_data = Inl ValueError"
  by (simp add: process_input_strings reshape_def length_concat_pad_sequences maxSeqLength_def)


lemma process_input_uninitialised:
  "loads raw_data = Inr a \<Longrightarrow> dictonary g = None \<or> contractions g = None \<Longrightarrow>
   process_input loads g raw_data = Inl NameError"
  by (auto simp: process_input_def split: option.splits)

lemma batch_not_one_error:
  assumes l: "loads raw_data = Inr (Array1d (map Str texts))" and n: "length texts \<noteq> 1"
  shows "\<exists>e. process_input loads g raw_data = Inl e"
proof (cases "dictonary g")
  case None
  with l show ?thesis by (simp add: process_input_uninitialised)
next
  case d: (Some d)
  show ?thesis
  proof (cases "contractions g")
    case None
    with l show ?thesis by (simp add: process_input_uninitialised)
  next
    case (Some c)
    with l d n show ?thesis by (simp add: process_input_batch_not_one)
  qed
qed






text \<open>
  C9: for a batch of \<open>n\<close> claim texts with \<open>n\<close> other than 1, \<^verbatim>\<open>run\<close> returns the text of
  an exception. With the vocabulary and the contraction map loaded, all \<open>n\<close> texts are
  encoded and padded into \<open>n\<close> rows of 125, the reshape to one row of 125 raises
  \<^verbatim>\<open>ValueError\<close>, and that exception is the one whose text is returned.
\<close>

theorem batch_size_not_one_reshape_fails:
  "loads raw_data = Inr (Array1d (map Str texts)) \<and> length texts \<noteq> 1 \<longrightarrow>
     (\<exists>e. run loads g raw_data = Returns (ErrorText e)) \<and>
     (dictonary g = Some d \<and> contractions g = Some c \<longrightarrow>
        (\<exists>input_data_indices.
           convert_to_indices (map Str texts) d c unk_word_index_default =
             Inr input_data_indices \<and>
           length input_data_indices = length texts \<and>
           length (pad_sequences input_data_indices maxSeqLength) = length texts \<and>
           list_all (\<lambda>row. length row = 125) (pad_sequences input_data_indices maxSeqLength) \<and>
           reshape (pad_sequences input_data_indices maxSeqLength) (1, maxSeqLength) =
             Inl ValueError) \<and>
        run_body loads g raw_data = Inl ValueError \<and>
        run loads g raw_data = Returns (ErrorText ValueError))"
proof (intro conjI impI; (elim conjE)?)
  assume l: "loads raw_data = Inr (Array1d (map Str texts))" and n: "length texts \<noteq> 1"
  from l n obtain e where "process_input loads g raw_data = Inl e"
    using batch_not_one_error [of loads raw_data texts g] by blast
  then have "run loads g raw_data = Returns (ErrorText e)"
    by (simp add: process_input_error run_body_error)
  then show "\<exists>e. run loads g raw_data = Returns (ErrorText e)" ..
  assume g: "dictonary g = Some d" "contractions g = Some c"
  let ?seqs = "map (encode_text d c unk_word_index_default) texts"
  have "convert_to_indices (map Str texts) d c unk_word_index_default = Inr ?seqs"
    by (rule convert_to_indices_strings)
  moreover have "length ?seqs = length texts" by simp
  moreover have "length (pad_sequences ?seqs maxSeqLength) = length texts"
    by (simp add: pad_sequences_def)
  moreover have "list_all (\<lambda>row. length row = 125) (pad_sequences ?seqs maxSeqLength)"
    by (simp add: pad_sequences_def list_all_iff pad_row_length maxSeqLength_def)
  moreover have "reshape (pad_sequences ?seqs maxSeqLength) (1, maxSeqLength) = Inl ValueError"
    using n by (simp add: reshape_def length_concat_pad_sequences maxSeqLength_def)
  ultimately show "\<exists>input_data_indices.
           convert_to_indices (map Str texts) d c unk_word_index_default =
             Inr input_data_indices \<and>
           length input_data_indices = length texts \<and>
           length (pad_sequences input_data_indices maxSeqLength) = length texts \<and>
           list_all (\<lambda>row. length row = 125) (pad_sequences input_data_indices maxSeqLength) \<and>
           reshape (pad_sequences input_data_indices maxSeqLength) (1, maxSeqLength) =
             Inl ValueError"
    by blast
  from l g n have "process_input loads g raw_data = Inl ValueError"
    by (rule process_input_batch_not_one)
  then show "run_body loads g raw_data = Inl ValueError"
    "run loads g raw_data = Returns (ErrorText ValueError)"
    by (simp_all add: process_input_error run_body_error)
qed

theorem batch_size_not_one_reshape_fails_witness:
  \<open>example_loads ''[]'' = Inr (Array1d (map Str [])) \<and> length ([] :: string list) \<noteq> 1 \<and>
   dictonary (example_globals example_failing_session) = Some example_vocabulary \<and>
   contractions (example_globals example_failing_session) = Some example_contractions \<and>
   run example_loads (example_globals example_failing_session) ''[]'' =
     Returns (ErrorText ValueError) \<and>
   example_loads ''["claim A","claim B","claim C"]'' =
     Inr (Array1d (map Str [''claim A'', ''claim B'', ''claim C''])) \<and>
   length [''claim A'', ''claim B'', ''claim C''] \<noteq> 1 \<and>
   run example_loads (example_globals example_failing_session)
     ''["claim A","claim B","claim C"]'' = Returns (ErrorText ValueError)\<close>
proof -
  have a: \<open>example_loads ''[]'' = Inr (Array1d (map Str []))\<close> by code_simp
  have b: "dictonary (example_globals example_failing_session) = Some example_vocabulary"
    "contractions (example_globals example_failing_session) = Some example_contractions"
    by (simp_all add: example_globals_def)
  have c: \<open>example_loads ''["claim A","claim B","claim C"]'' =
     Inr (Array1d (map Str [''claim A'', ''claim B'', ''claim C'']))\<close> by code_simp
  from batch_size_not_one_reshape_fails [of example_loads \<open>''[]''\<close> "[]"
      "example_globals example_failing_session" example_vocabulary example_contractions] a b
  have d: \<open>run example_loads (example_globals example_failing_session) ''[]'' =
     Returns (ErrorText ValueError)\<close> by simp
  from batch_size_not_one_reshape_fails [of example_loads
      \<open>''["claim A","claim B","claim C"]''\<close> "[''claim A'', ''claim B'', ''claim C'']"
      "example_globals example_failing_session" example_vocabulary example_contractions] c b
  have e: \<open>run example_loads (example_globals example_failing_session)
     ''["claim A","claim B","claim C"]'' = Returns (ErrorText ValueError)\<close> by simp
  from a b c d e show ?thesis by simp
qed

text \<open>
  C5: \<^verbatim>\<open>run\<close> always returns and no exception leaves it. An exception raised in the
  \<^verbatim>\<open>try\<close> block is returned as its text: one raised by parsing the payload, one raised
  by the encoder on an element that is not a string, and one raised by the engine.
\<close>

theorem run_never_raises:
  "(\<exists>r. run loads g raw_data = Returns r) \<and>
   (\<forall>e. run loads g raw_data \<noteq> Raises e) \<and>
   (\<forall>e. run_body loads g raw_data = Inl e \<longrightarrow> run loads g raw_data = Returns (ErrorText e)) \<and>
   (\<forall>e. loads raw_data = Inl e \<longrightarrow> run loads g raw_data = Returns (ErrorText e)) \<and>
   (\<forall>corpus d c. loads raw_data = Inr (Array1d corpus) \<and> NonStr \<in> set corpus \<and>
      dictonary g = Some d \<and> contractions g = Some c \<longrightarrow>
        run loads g raw_data = Returns (ErrorText AttributeError)) \<and>
   (\<forall>input_data session e. process_input loads g raw_data = Inr input_data \<and>
      onnx_session g = Some session \<and> session input_data = Inl e \<longrightarrow>
        run loads g raw_data = Returns (ErrorText e))"
proof (intro conjI allI impI; (elim conjE)?)
  show "\<exists>r. run loads g raw_data = Returns r"
    by (cases "run_body loads g raw_data") (simp_all add: run_def)
  show "run loads g raw_data \<noteq> Raises e" for e
    by (cases "run_body loads g raw_data") (simp_all add: run_def)
  show "run loads g raw_data = Returns (ErrorText e)"
    if "run_body loads g raw_data = Inl e" for e
    using that by (rule run_body_error)
  show "run loads g raw_data = Returns (ErrorText e)" if "loads raw_data = Inl e" for e
    using that by (simp add: run_def run_body_def process_input_def)
  show "run loads g raw_data = Returns (ErrorText AttributeError)"
    if "loads raw_data = Inr (Array1d corpus)" "NonStr \<in> set corpus"
      "dictonary g = Some d" "contractions g = Some c" for corpus d c
    using that
    by (simp add: run_def run_body_def process_input_def convert_to_indices_def
        corpus_loop_NonStr)
  show "run loads g raw_data = Returns (ErrorText e)"
    if "process_input loads g raw_data = Inr input_data" "onnx_session g = Some session"
      "session input_data = Inl e" for input_data session e
    using that by (simp add: run_def run_body_def)
qed

theorem run_never_raises_witness:
  \<open>example_loads ''claim A'' = Inl ValueError \<and>
   run example_loads (example_globals example_session) ''claim A'' =
     Returns (ErrorText ValueError) \<and>
   example_loads ''[1]'' = Inr (Array1d [NonStr]) \<and>
   run example_loads (example_globals example_session) ''[1]'' =
     Returns (ErrorText AttributeError) \<and>
   process_input example_loads (example_globals example_failing_session) ''["claim A"]'' =
     Inr [replicate 123 0 @ [399999, 6]] \<and>
   example_failing_session [replicate 123 0 @ [399999, 6]] =
     Inl (OtherException ''InvalidArgument'') \<and>
   run example_loads (example_globals example_failing_session) ''["claim A"]'' =
     Returns (ErrorText (OtherException ''InvalidArgument''))\<close>
proof -
  have a: \<open>example_loads ''claim A'' = Inl ValueError\<close> by code_simp
  have b: \<open>example_loads ''[1]'' = Inr (Array1d [NonStr])\<close> by code_simp
  have c: "NonStr \<in> set [NonStr]" by simp
  have d: "dictonary (example_globals example_session) = Some example_vocabulary"
    "contractions (example_globals example_session) = Some example_contractions"
    "onnx_session (example_globals example_failing_session) = Some example_failing_session"
    by (simp_all add: example_globals_def)
  have e: \<open>process_input example_loads (example_globals example_failing_session)
      ''["claim A"]'' = Inr [replicate 123 0 @ [399999, 6]]\<close> by code_simp
  have f: "example_failing_session [replicate 123 0 @ [399999, 6]] =
     Inl (OtherException ''InvalidArgument'')" by (simp add: example_failing_session_def)
  from run_never_raises [of example_loads "example_globals example_session" \<open>''claim A''\<close>] a
  have r1: \<open>run example_loads (example_globals example_session) ''claim A'' =
     Returns (ErrorText ValueError)\<close> by blast
  from run_never_raises [of example_loads "example_globals example_session" \<open>''[1]''\<close>] b c d
  have r2: \<open>run example_loads (example_globals example_session) ''[1]'' =
     Returns (ErrorText AttributeError)\<close> by blast
  from run_never_raises [of example_loads "example_globals example_failing_session"
      \<open>''["claim A"]''\<close>] d e f
  have r3: \<open>run example_loads (example_globals example_failing_session) ''["claim A"]'' =
     Returns (ErrorText (OtherException ''InvalidArgument''))\<close> by blast
  from a b e f r1 r2 r3 show ?thesis by simp
qed

lemma argmax_loop_first_max:
  "length pre = i \<Longrightarrow> max_ind < i \<Longrightarrow> pre ! max_ind = mp \<Longrightarrow>
   \<forall>j<i. pre ! j \<le> mp \<Longrightarrow> \<forall>j<max_ind. pre ! j < mp \<Longrightarrow>
   argmax_loop xs i mp max_ind < length (pre @ xs) \<and>
   (\<forall>j<length (pre @ xs). (pre @ xs) ! j \<le> (pre @ xs) ! argmax_loop xs i mp max_ind) \<and>
   (\<forall>j<argmax_loop xs i mp max_ind. (pre @ xs) ! j < (pre @ xs) ! argmax_loop xs i mp max_ind)"
proof (induction xs arbitrary: pre i mp max_ind)
  case Nil
  then show ?case by simp
next
  case (Cons x xs)
  show ?case
  proof (cases "mp < x")
    case True
    have "length (pre @ [x]) = Suc i" using Cons.prems by simp
    moreover have "i < Suc i" by simp
    moreover have "(pre @ [x]) ! i = x" using Cons.prems(1) by (auto simp: nth_append)
    moreover have "\<forall>j<Suc i. (pre @ [x]) ! j \<le> x"
      using Cons.prems True by (auto simp: nth_append less_Suc_eq intro: less_imp_le order.trans)
    moreover have "\<forall>j<i. (pre @ [x]) ! j < x"
      using Cons.prems True by (auto simp: nth_append intro: le_less_trans)
    ultimately have "argmax_loop xs (Suc i) x i < length ((pre @ [x]) @ xs) \<and>
      (\<forall>j<length ((pre @ [x]) @ xs).
         ((pre @ [x]) @ xs) ! j \<le> ((pre @ [x]) @ xs) ! argmax_loop xs (Suc i) x i) \<and>
      (\<forall>j<argmax_loop xs (Suc i) x i.
         ((pre @ [x]) @ xs) ! j < ((pre @ [x]) @ xs) ! argmax_loop xs (Suc i) x i)"
      by (rule Cons.IH)
    with True show ?thesis by simp
  next
    case False
    have "length (pre @ [x]) = Suc i" using Cons.prems by simp
    moreover have "max_ind < Suc i" using Cons.prems by simp
    moreover have "(pre @ [x]) ! max_ind = mp" using Cons.prems by (simp add: nth_append)
    moreover have "\<forall>j<Suc i. (pre @ [x]) ! j \<le> mp"
      using Cons.prems False by (auto simp: nth_append less_Suc_eq)
    moreover have "\<forall>j<max_ind. (pre @ [x]) ! j < mp"
      using Cons.prems by (auto simp: nth_append)
    ultimately have "argmax_loop xs (Suc i) mp max_ind < length ((pre @ [x]) @ xs) \<and>
      (\<forall>j<length ((pre @ [x]) @ xs).
         ((pre @ [x]) @ xs) ! j \<le> ((pre @ [x]) @ xs) ! argmax_loop xs (Suc i) mp max_ind) \<and>
      (\<forall>j<argmax_loop xs (Suc i) mp max_ind.
         ((pre @ [x]) @ xs) ! j < ((pre @ [x]) @ xs) ! argmax_loop xs (Suc i) mp max_ind)"
      by (rule Cons.IH)
    with False show ?thesis by simp
  qed
qed

lemma argmax_first_max:
  "argmax row = Inr i \<Longrightarrow>
   i < length row \<and> (\<forall>j<length row. row ! j \<le> row ! i) \<and> (\<forall>j<i. row ! j < row ! i)"
proof (cases row)
  case Nil
  assume "argmax row = Inr i"
  with Nil show ?thesis by simp
next
  case (Cons x xs)
  assume "argmax row = Inr i"
  with Cons have i: "i = argmax_loop xs 1 x 0" by simp
  from argmax_loop_first_max [of "[x]" 1 0 x xs] Cons i show ?thesis by simp
qed

lemma run_on_scores:
  "process_input loads g raw_data = Inr input_data \<Longrightarrow> onnx_session g = Some session \<Longrightarrow>
   session input_data = Inr scores \<Longrightarrow>
   run_body loads g raw_data =
     (case argmax_axis1 scores of Inl e \<Rightarrow> Inl e | Inr labels \<Rightarrow> item labels)"
  by (simp add: run_body_def)

text \<open>
  C8: when the engine returns one row of two equal class scores, \<^verbatim>\<open>run\<close> returns the
  label 0. In general \<^verbatim>\<open>argmax\<close> returns a position of the largest score before which
  every score is strictly smaller, that is the lowest position among the ties.
\<close>

theorem argmax_tie_label_zero:
  "(process_input loads g raw_data = Inr input_data \<and> onnx_session g = Some session \<and>
      session input_data = Inr [[a, b]] \<and> a = b \<longrightarrow>
        run loads g raw_data = Returns (Label 0)) \<and>
   (argmax row = Inr i \<longrightarrow>
      i < length row \<and> (\<forall>j<length row. row ! j \<le> row ! i) \<and> (\<forall>j<i. row ! j < row ! i))"
proof (intro conjI impI; (elim conjE)?)
  assume "process_input loads g raw_data = Inr input_data" "onnx_session g = Some session"
    "session input_data = Inr [[a, b]]" "a = b"
  then show "run loads g raw_data = Returns (Label 0)"
    by (simp add: run_def run_on_scores)
next
  assume "argmax row = Inr i"
  then show "i < length row" "\<forall>j<length row. row ! j \<le> row ! i" "\<forall>j<i. row ! j < row ! i"
    using argmax_first_max [of row i] by simp_all
qed

theorem argmax_tie_label_zero_witness:
  \<open>process_input example_loads (example_globals example_tied_session) ''["claim A"]'' =
     Inr [replicate 123 0 @ [399999, 6]] \<and>
   onnx_session (example_globals example_tied_session) = Some example_tied_session \<and>
   example_tied_session [replicate 123 0 @ [399999, 6]] = Inr [[1 / 2, 1 / 2]] \<and>
   run example_loads (example_globals example_tied_session) ''["claim A"]'' =
     Returns (Label 0) \<and>
   argmax [1 / 4, 3 / 4, 3 / 4 :: real] = Inr 1 \<and>
   [1 / 4, 3 / 4, 3 / 4 :: real] ! 0 < [1 / 4, 3 / 4, 3 / 4] ! 1\<close>
proof -
  have a: \<open>process_input example_loads (example_globals example_tied_session)
      ''["claim A"]'' = Inr [replicate 123 0 @ [399999, 6]]\<close> by code_simp
  have b: "onnx_session (example_globals example_tied_session) = Some example_tied_session"
    by (simp add: example_globals_def)
  have c: "example_tied_session [replicate 123 0 @ [399999, 6]] = Inr [[1 / 2, 1 / 2]]"
    by (simp add: example_tied_session_def)
  have d: "argmax [1 / 4, 3 / 4, 3 / 4 :: real] = Inr 1" by simp
  from argmax_tie_label_zero [of example_loads "example_globals example_tied_session"
      \<open>''["claim A"]''\<close> "[replicate 123 0 @ [399999, 6]]" example_tied_session "1 / 2" "1 / 2"
      "[1 / 4, 3 / 4, 3 / 4 :: real]" 1] a b c d
  show ?thesis by simp
qed

end
